theory Spec2Isabelle
  imports Complex_Main "HOL-Library.Sublist" "HOL-Library.List_Lexorder" "HOL-Library.Char_ord"
    "HOL-Library.Product_Lexorder"
begin

section \<open>Tables\<close>

text \<open>
  The three revisions of the dashboard (\<^verbatim>\<open>app.py\<close>, \<^verbatim>\<open>app2.py\<close>, \<^verbatim>\<open>app_enhanced.py\<close>)
  compute over pandas data frames read from six CSV files. A frame is modelled by its list of
  column names and its list of rows; a row gives the cell under each column name. The value of a
  row at a name that is not a column of its frame is never read by the functions below without a
  preceding test of the column list (or it is an explicit \<open>KeyError\<close>).

  A cell is classified by what pandas reads in it:
  \<^item> \<open>Num q\<close>: a field that \<^verbatim>\<open>pd.to_numeric\<close> reads as the number \<open>q\<close>. Numbers are exact
    rationals: the rounding of 64-bit floats is outside this model.
  \<^item> \<open>Day d\<close>: a field that pandas reads as a timestamp; \<open>d\<close> is its calendar date
    (\<^verbatim>\<open>.dt.date\<close>) as a day count. Such cells occur in the four \<^verbatim>\<open>data_*\<close> columns only.
  \<^item> \<open>Txt s\<close>: any other text, which is neither a number nor a date for pandas.
  \<^item> \<open>NA\<close>: a missing value (an empty field, \<^verbatim>\<open>NaN\<close>, \<^verbatim>\<open>NaT\<close>, \<^verbatim>\<open><NA>\<close>).
  Strings are byte strings; lower-casing is modelled on ASCII letters.
\<close>

datatype cell = Num rat | Txt string | Day int | NA

type_synonym row = "string \<Rightarrow> cell"

record frame =
  columns :: "string list"
  rows :: "row list"

text \<open>A row written as the list of its fields; every other name reads as missing.\<close>

definition mk_row :: "(string \<times> cell) list \<Rightarrow> row" where
  "mk_row kvs c = (case map_of kvs c of Some v \<Rightarrow> v | None \<Rightarrow> NA)"

text \<open>\<^verbatim>\<open>pd.DataFrame()\<close>: no columns, no rows.\<close>

definition DataFrame_empty :: frame where
  "DataFrame_empty = \<lparr>columns = [], rows = []\<rparr>"

text \<open>\<^verbatim>\<open>df.empty\<close>: true when either axis has length 0.\<close>

definition df_empty :: "frame \<Rightarrow> bool" where
  "df_empty df \<longleftrightarrow> columns df = [] \<or> rows df = []"

text \<open>\<^verbatim>\<open>name in df.columns\<close>.\<close>

definition has_col :: "frame \<Rightarrow> string \<Rightarrow> bool" where
  "has_col df c \<longleftrightarrow> c \<in> set (columns df)"

text \<open>The cells of one column, in row order.\<close>

definition col :: "frame \<Rightarrow> string \<Rightarrow> cell list" where
  "col df c = map (\<lambda>r. r c) (rows df)"

text \<open>\<^verbatim>\<open>df[mask]\<close>, \<^verbatim>\<open>df.loc[mask]\<close>: the rows whose mask entry is true, columns unchanged.\<close>

definition where_rows :: "(row \<Rightarrow> bool) \<Rightarrow> frame \<Rightarrow> frame" where
  "where_rows keep df = df\<lparr>rows := filter keep (rows df)\<rparr>"

section \<open>Coercions\<close>

text \<open>\<^verbatim>\<open>pd.to_numeric(x, errors='coerce')\<close> on one cell; \<open>None\<close> is \<^verbatim>\<open>NaN\<close>.\<close>

fun to_numeric :: "cell \<Rightarrow> rat option" where
  "to_numeric (Num q) = Some q"
| "to_numeric (Txt s) = None"
| "to_numeric (Day d) = None"
| "to_numeric NA = None"

text \<open>\<^verbatim>\<open>.fillna(v)\<close> on a numeric value.\<close>

definition fillna :: "rat \<Rightarrow> rat option \<Rightarrow> rat" where
  "fillna v x = (case x of None \<Rightarrow> v | Some q \<Rightarrow> q)"

text \<open>\<^verbatim>\<open>.astype(int)\<close> on a float: truncation toward zero.\<close>

definition astype_int :: "rat \<Rightarrow> int" where
  "astype_int q = (if 0 \<le> q then \<lfloor>q\<rfloor> else \<lceil>q\<rceil>)"

text \<open>\<^verbatim>\<open>.round()\<close>: to the nearest whole number, a tie to the even one (numpy).\<close>

definition round_half_even :: "rat \<Rightarrow> int" where
  "round_half_even q =
     (let f = \<lfloor>q\<rfloor>; d = q - of_int f
      in if d < 1/2 then f else if 1/2 < d then f + 1 else if even f then f else f + 1)"

definition np_round :: "rat \<Rightarrow> rat" where
  "np_round q = of_int (round_half_even q)"

text \<open>
  \<^verbatim>\<open>app_enhanced.py\<close>, \<^verbatim>\<open>normalize_dataframes\<close>, line 136, on one cell of
  \<^verbatim>\<open>quantidade_colhida\<close>:
  \<^verbatim>\<open>pd.to_numeric(..., errors='coerce').fillna(0).round().astype(int)\<close>.
\<close>

definition coerce_quantidade :: "cell \<Rightarrow> int" where
  "coerce_quantidade c = astype_int (np_round (fillna 0 (to_numeric c)))"

text \<open>The same line on the harvest table: it runs when the table is not empty and has the column.\<close>

definition normalize_quantidade :: "frame \<Rightarrow> frame" where
  "normalize_quantidade colheitas =
     (if \<not> df_empty colheitas \<and> has_col colheitas ''quantidade_colhida''
      then colheitas\<lparr>rows := map (\<lambda>r. r(''quantidade_colhida'' :=
                Num (of_int (coerce_quantidade (r ''quantidade_colhida''))))) (rows colheitas)\<rparr>
      else colheitas)"

section \<open>Propagating the selection (\<^verbatim>\<open>app_enhanced.py\<close>)\<close>

text \<open>
  Lines 155-157: the set of selected planting ids,
  \<^verbatim>\<open>set(pd.to_numeric(plantios_f['plantio_id'], errors='coerce').dropna().astype(int).tolist())\<close>
  when the filtered planting table is not empty and has the column, else the empty set.
\<close>

definition plantio_ids_of :: "frame \<Rightarrow> int set" where
  "plantio_ids_of plantios_f =
     (if \<not> df_empty plantios_f \<and> has_col plantios_f ''plantio_id''
      then set (map astype_int (List.map_filter to_numeric (col plantios_f ''plantio_id'')))
      else {})"

text \<open>
  Lines 159-172, \<^verbatim>\<open>filter_by_plantios_table(df)\<close>, with the global \<^verbatim>\<open>plantio_ids\<close> as a
  parameter. The tables passed are never \<^verbatim>\<open>None\<close>. An empty table gives \<^verbatim>\<open>pd.DataFrame()\<close>;
  a table with the column keeps the rows whose coerced id (\<open>-1\<close> for a value that is not a
  number) is selected, and no row when the selection is empty; a table without the column is
  returned whole.
\<close>

definition filter_by_plantios_table :: "int set \<Rightarrow> frame \<Rightarrow> frame" where
  "filter_by_plantios_table plantio_ids df =
     (if df_empty df then DataFrame_empty
      else if has_col df ''plantio_id'' then
        where_rows (\<lambda>r. if plantio_ids \<noteq> {}
                         then astype_int (fillna (- 1) (to_numeric (r ''plantio_id''))) \<in> plantio_ids
                         else False) df
      else df)"


section \<open>Failures\<close>

text \<open>
  What the Python code raises is a value of the model. \<open>Unmodelled\<close> marks the inputs on which
  pandas or Python's \<^verbatim>\<open>re\<close> do something this model does not describe (a sum or \<^verbatim>\<open>.str\<close> over
  cells of the wrong kind, a search term with regular-expression metacharacters); nothing is
  stated about the code there. \<open>ReadError\<close> stands for whatever \<^verbatim>\<open>pd.read_csv\<close> raises on
  a file that exists and cannot be read.
\<close>

datatype error =
    KeyError string
  | AttributeError string
  | ValueError
  | TypeError
  | FileNotFoundError string
  | ReadError
  | Unmodelled string

definition bind_err :: "error + 'a \<Rightarrow> ('a \<Rightarrow> error + 'b) \<Rightarrow> error + 'b" where
  "bind_err x f = (case x of Inl e \<Rightarrow> Inl e | Inr v \<Rightarrow> f v)"

text \<open>\<^verbatim>\<open>df[c]\<close>: the column, or \<open>KeyError\<close>.\<close>

definition getcol :: "frame \<Rightarrow> string \<Rightarrow> error + cell list" where
  "getcol df c = (if has_col df c then Inr (col df c) else Inl (KeyError c))"

text \<open>\<^verbatim>\<open>Series.nunique()\<close>: the number of distinct values, missing ones not counted.\<close>

definition nunique :: "cell list \<Rightarrow> nat" where
  "nunique cs = length (remdups (filter (\<lambda>c. c \<noteq> NA) cs))"

text \<open>
  \<^verbatim>\<open>Series.sum()\<close> of a numeric column: missing values are skipped, the empty sum is 0. A column
  holding text or dates is not numeric for pandas.
\<close>

definition numeric_cells :: "cell list \<Rightarrow> bool" where
  "numeric_cells cs = list_all (\<lambda>c. case c of Num q \<Rightarrow> True | NA \<Rightarrow> True | _ \<Rightarrow> False) cs"

definition sum_num :: "cell list \<Rightarrow> rat" where
  "sum_num cs = sum_list (map (fillna 0 \<circ> to_numeric) cs)"

definition series_sum :: "cell list \<Rightarrow> error + rat" where
  "series_sum cs =
     (if numeric_cells cs then Inr (sum_num cs) else Inl (Unmodelled ''sum of a non-numeric column''))"

section \<open>Propagating the selection (\<^verbatim>\<open>app2.py\<close>)\<close>

text \<open>
  Lines 257 and 260: \<^verbatim>\<open>obs[obs['plantio_id'].isin(p['plantio_id'])]\<close> and the same for
  \<^verbatim>\<open>colheitas\<close>. \<^verbatim>\<open>isin\<close> compares values, a missing id matching a missing id.
\<close>

definition isin_plantios :: "frame \<Rightarrow> frame \<Rightarrow> error + frame" where
  "isin_plantios p child =
     (if \<not> has_col child ''plantio_id'' then Inl (KeyError ''plantio_id'')
      else if \<not> has_col p ''plantio_id'' then Inl (KeyError ''plantio_id'')
      else Inr (where_rows (\<lambda>r. r ''plantio_id'' \<in> set (col p ''plantio_id'')) child))"

section \<open>Success rate\<close>



section \<open>Joins\<close>

text \<open>\<^verbatim>\<open>df[[c1, c2]]\<close>: the listed columns, or \<open>KeyError\<close> for the first that is absent.\<close>

definition select_cols :: "string list \<Rightarrow> frame \<Rightarrow> error + frame" where
  "select_cols cs df =
     (case find (\<lambda>c. \<not> has_col df c) cs of
        Some c \<Rightarrow> Inl (KeyError c)
      | None \<Rightarrow> Inr \<lparr>columns = cs, rows = rows df\<rparr>)"

text \<open>\<^verbatim>\<open>df.rename(columns={old: new})\<close>; a name that is not a column is ignored.\<close>

definition rename_col :: "string \<Rightarrow> string \<Rightarrow> frame \<Rightarrow> frame" where
  "rename_col old new df =
     (if has_col df old
      then \<lparr>columns = map (\<lambda>c. if c = old then new else c) (columns df),
            rows = map (\<lambda>r n. if n = new then r old else r n) (rows df)\<rparr>
      else df)"

text \<open>
  \<^verbatim>\<open>left.merge(right, on=key, how=...)\<close> on one key column. Keys match by value, a missing key
  matching a missing key. A left join keeps every left row, in order, once per matching right
  row, and once with missing right fields when nothing matches; a right join does the same from
  the right table; an inner join keeps the matching pairs only, in the order of the left table.
  A column other than the key that both tables have is renamed with the suffixes \<^verbatim>\<open>_x\<close> and
  \<^verbatim>\<open>_y\<close>. The key must be a column of both tables.
\<close>

datatype how = HowLeft | HowRight | HowInner

definition suffixed :: "string list \<Rightarrow> string \<Rightarrow> string \<Rightarrow> string" where
  "suffixed overlap sfx c = (if c \<in> set overlap then c @ sfx else c)"

definition join_rows ::
  "string \<Rightarrow> string list \<Rightarrow> string list \<Rightarrow> string list \<Rightarrow> row option \<Rightarrow> row option \<Rightarrow> row" where
  "join_rows on overlap lcols rcols lo ro n =
     (if n = on then (case lo of Some lr \<Rightarrow> lr on
                      | None \<Rightarrow> (case ro of Some rr \<Rightarrow> rr on | None \<Rightarrow> NA))
      else case find (\<lambda>c. suffixed overlap ''_x'' c = n) lcols of
             Some c \<Rightarrow> (case lo of Some lr \<Rightarrow> lr c | None \<Rightarrow> NA)
           | None \<Rightarrow>
               (case find (\<lambda>c. suffixed overlap ''_y'' c = n) rcols of
                  Some c \<Rightarrow> (case ro of Some rr \<Rightarrow> rr c | None \<Rightarrow> NA)
                | None \<Rightarrow> NA))"

definition merge :: "how \<Rightarrow> string \<Rightarrow> frame \<Rightarrow> frame \<Rightarrow> error + frame" where
  "merge hw on l r =
     (if \<not> has_col l on \<or> \<not> has_col r on then Inl (KeyError on)
      else
        let overlap = filter (\<lambda>c. c \<noteq> on \<and> c \<in> set (columns r)) (columns l);
            rcols = filter (\<lambda>c. c \<noteq> on) (columns r);
            join = join_rows on overlap (columns l) rcols
        in Inr \<lparr>columns = map (suffixed overlap ''_x'') (columns l) @ map (suffixed overlap ''_y'') rcols,
                rows =
                  (case hw of
                     HowLeft \<Rightarrow>
                       concat (map (\<lambda>lr. let ms = filter (\<lambda>rr. rr on = lr on) (rows r)
                                          in if ms = [] then [join (Some lr) None]
                                             else map (\<lambda>rr. join (Some lr) (Some rr)) ms) (rows l))
                   | HowInner \<Rightarrow>
                       concat (map (\<lambda>lr. map (\<lambda>rr. join (Some lr) (Some rr))
                                            (filter (\<lambda>rr. rr on = lr on) (rows r))) (rows l))
                   | HowRight \<Rightarrow>
                       concat (map (\<lambda>rr. let ms = filter (\<lambda>lr. lr on = rr on) (rows l)
                                          in if ms = [] then [join None (Some rr)]
                                             else map (\<lambda>lr. join (Some lr) (Some rr)) ms) (rows r)))\<rparr>)"

section \<open>Dates and text\<close>

text \<open>
  \<^verbatim>\<open>pd.to_datetime(x, errors='coerce')\<close> followed by \<^verbatim>\<open>.dt.date\<close>, on one cell; \<open>None\<close> is
  \<^verbatim>\<open>NaT\<close>. A bare number is read as nanoseconds since 1970-01-01.
\<close>

fun to_date :: "cell \<Rightarrow> int option" where
  "to_date (Day d) = Some d"
| "to_date (Num q) = Some \<lfloor>q / 86400000000000\<rfloor>"
| "to_date (Txt s) = None"
| "to_date NA = None"

text \<open>\<^verbatim>\<open>(date >= s) & (date <= e)\<close>: a missing date compares false.\<close>

definition in_period :: "int \<Rightarrow> int \<Rightarrow> cell \<Rightarrow> bool" where
  "in_period s e c = (case to_date c of None \<Rightarrow> False | Some d \<Rightarrow> s \<le> d \<and> d \<le> e)"

definition is_Txt :: "cell \<Rightarrow> bool" where
  "is_Txt c = (case c of Txt s \<Rightarrow> True | _ \<Rightarrow> False)"

text \<open>\<^verbatim>\<open>str.strip()\<close> and \<^verbatim>\<open>str.lower()\<close>, on ASCII.\<close>

definition is_space :: "char \<Rightarrow> bool" where
  "is_space c = (of_char c \<in> {9, 10, 11, 12, 13, 28, 29, 30, 31, 32 :: nat})"

definition strip :: "string \<Rightarrow> string" where
  "strip s = rev (dropWhile is_space (rev (dropWhile is_space s)))"

definition lower_char :: "char \<Rightarrow> char" where
  "lower_char c =
     (case map_of (zip ''ABCDEFGHIJKLMNOPQRSTUVWXYZ'' ''abcdefghijklmnopqrstuvwxyz'') c of
        Some d \<Rightarrow> d
      | None \<Rightarrow> c)"

definition lower :: "string \<Rightarrow> string" where
  "lower s = map lower_char s"

text \<open>
  \<^verbatim>\<open>.fillna("")\<close> on a text cell. The \<^verbatim>\<open>.str\<close> methods are modelled on text and missing cells.
\<close>

definition text_of :: "cell \<Rightarrow> string" where
  "text_of c = (case c of Txt s \<Rightarrow> s | _ \<Rightarrow> [])"

definition text_cells :: "cell list \<Rightarrow> bool" where
  "text_cells cs = list_all (\<lambda>c. case c of Txt s \<Rightarrow> True | NA \<Rightarrow> True | _ \<Rightarrow> False) cs"

text \<open>
  \<^verbatim>\<open>Series.str.contains(s)\<close> reads \<open>s\<close> as a regular expression. For a term without
  metacharacters that is substring search; other terms are outside the model.
\<close>

definition regex_meta :: "char list" where
  "regex_meta = CHR 0x5C # ''.^$*+?{}[]|()''"

definition literal_term :: "string \<Rightarrow> bool" where
  "literal_term s = (\<not> list_ex (\<lambda>c. c \<in> set regex_meta) s)"

section \<open>Filter criteria\<close>

text \<open>
  The sidebar's date widget yields one date or a pair (start, end). \<^verbatim>\<open>app_enhanced.py\<close> reads
  \<^verbatim>\<open>date_range\<close>, \<^verbatim>\<open>especie_sel\<close>, \<^verbatim>\<open>canteiro_sel\<close> and \<^verbatim>\<open>responsavel_sel\<close>;
  \<^verbatim>\<open>app2.py\<close> (where the date widget's value is called \<^verbatim>\<open>period\<close>) adds \<^verbatim>\<open>metodo_sel\<close>,
  \<^verbatim>\<open>only_active\<close> and \<^verbatim>\<open>search_text\<close>. Dates are day counts.
\<close>

datatype date_input = Single int | Range int int

record filtros =
  date_range :: date_input
  especie_sel :: string
  canteiro_sel :: string
  responsavel_sel :: string

record filtros2 = filtros +
  metodo_sel :: string
  only_active :: bool
  search_text :: string

section \<open>Selection of plantings (\<^verbatim>\<open>app2.py\<close>)\<close>

text \<open>Lines 48-49: the planting table joined with the bed names and the species names.\<close>

definition join_nomes :: "frame \<Rightarrow> frame \<Rightarrow> frame \<Rightarrow> error + frame" where
  "join_nomes canteiros especies plantios =
     bind_err (select_cols [''canteiro_id'', ''nome''] canteiros) (\<lambda>c.
     bind_err (merge HowLeft ''canteiro_id'' plantios (rename_col ''nome'' ''canteiro_nome'' c)) (\<lambda>p1.
     bind_err (select_cols [''especie_id'', ''nome_comum''] especies) (\<lambda>e.
     merge HowLeft ''especie_id'' p1 (rename_col ''nome_comum'' ''especie_nome'' e))))"

text \<open>\<^verbatim>\<open>p[p[c] == v]\<close> for a string \<open>v\<close>.\<close>

definition filter_eq :: "string \<Rightarrow> string \<Rightarrow> frame \<Rightarrow> error + frame" where
  "filter_eq c v p =
     (if has_col p c then Inr (where_rows (\<lambda>r. r c = Txt v) p) else Inl (KeyError c))"

text \<open>Lines 97-100, \<^verbatim>\<open>only_active\<close>: the plantings whose id is not an id of the harvest table.\<close>

definition sem_colheita :: "frame \<Rightarrow> frame \<Rightarrow> error + frame" where
  "sem_colheita colheitas p =
     (if \<not> has_col colheitas ''plantio_id'' then Inl (KeyError ''plantio_id'')
      else if \<not> has_col p ''plantio_id'' then Inl (KeyError ''plantio_id'')
      else Inr (where_rows (\<lambda>r. r ''plantio_id'' \<notin> set (col colheitas ''plantio_id'')) p))"

text \<open>
  Lines 101-107, the search: skipped when the stripped text is empty; else, with \<open>s\<close> the
  stripped text in lower case, a planting is kept when its lower-cased notes contain \<open>s\<close> or
  its id is the id of an observation whose lower-cased comment contains \<open>s\<close>.
\<close>

definition matches :: "string \<Rightarrow> cell \<Rightarrow> bool" where
  "matches s c = sublist s (lower (text_of c))"

definition busca :: "string \<Rightarrow> frame \<Rightarrow> frame \<Rightarrow> error + frame" where
  "busca search observ p =
     (if strip search = [] then Inr p
      else
        let s = lower (strip search)
        in if \<not> has_col p ''notas'' then Inl (KeyError ''notas'')
           else if \<not> text_cells (col p ''notas'') then Inl (Unmodelled ''.str on a cell that is not text'')
           else if \<not> literal_term s then Inl (Unmodelled ''regular expression'')
           else if \<not> has_col observ ''comentarios'' then Inl (KeyError ''comentarios'')
           else if \<not> text_cells (col observ ''comentarios'')
             then Inl (Unmodelled ''.str on a cell that is not text'')
           else if \<not> has_col observ ''plantio_id'' then Inl (KeyError ''plantio_id'')
           else if \<not> has_col p ''plantio_id'' then Inl (KeyError ''plantio_id'')
           else
             let plantios_with_obs =
                   map (\<lambda>ob. ob ''plantio_id'') (filter (\<lambda>ob. matches s (ob ''comentarios'')) (rows observ))
             in Inr (where_rows (\<lambda>r. matches s (r ''notas'') \<or> r ''plantio_id'' \<in> set plantios_with_obs) p))"

text \<open>
  Lines 85-107, on the joined planting table. Unpacking \<^verbatim>\<open>start_date, end_date = period\<close> raises
  when the widget holds a single date; \<^verbatim>\<open>pd.to_datetime\<close> without \<^verbatim>\<open>errors='coerce'\<close> raises on
  text that is not a date.
\<close>

definition filtragem :: "filtros2 \<Rightarrow> frame \<Rightarrow> frame \<Rightarrow> frame \<Rightarrow> error + frame" where
  "filtragem f plantios colheitas observ =
     (case date_range f of
        Single d \<Rightarrow> Inl TypeError
      | Range start_date end_date \<Rightarrow>
          if \<not> has_col plantios ''data_plantio'' then Inl (KeyError ''data_plantio'')
          else if list_ex is_Txt (col plantios ''data_plantio'') then Inl ValueError
          else
            bind_err (Inr (where_rows (\<lambda>r. in_period start_date end_date (r ''data_plantio'')) plantios)) (\<lambda>p.
            bind_err (if especie_sel f \<noteq> ''Todas'' then filter_eq ''especie_nome'' (especie_sel f) p
                      else Inr p) (\<lambda>p.
            bind_err (if canteiro_sel f \<noteq> ''Todos'' then filter_eq ''canteiro_nome'' (canteiro_sel f) p
                      else Inr p) (\<lambda>p.
            bind_err (if responsavel_sel f \<noteq> ''Todos'' then filter_eq ''responsavel'' (responsavel_sel f) p
                      else Inr p) (\<lambda>p.
            bind_err (if metodo_sel f \<noteq> ''Todos'' then filter_eq ''metodo'' (metodo_sel f) p
                      else Inr p) (\<lambda>p.
            bind_err (if only_active f then sem_colheita colheitas p else Inr p) (\<lambda>p.
            busca (search_text f) observ p)))))))"

section \<open>Indicators (\<^verbatim>\<open>app2.py\<close>)\<close>

text \<open>
  Lines 113-115 and 123, the top indicators. They read the tables as loaded: no filter enters.
  (The mean per planting and the share of pests of lines 116-119 are left out.)
\<close>

record kpis2 =
  total_colhido2 :: rat
  num_plantios2 :: nat
  plantios_com_colheita2 :: nat
  taxa2 :: rat

definition top_kpis :: "frame \<Rightarrow> frame \<Rightarrow> error + kpis2" where
  "top_kpis plantios colheitas =
     bind_err (if \<not> df_empty colheitas
               then bind_err (getcol colheitas ''quantidade_colhida'') series_sum
               else Inr 0) (\<lambda>total_colhido.
     let num_plantios = length (rows plantios)
     in bind_err (if \<not> df_empty colheitas
                  then bind_err (getcol colheitas ''plantio_id'') (\<lambda>ids. Inr (nunique ids))
                  else Inr 0) (\<lambda>plantios_com_colheita.
          Inr \<lparr>total_colhido2 = total_colhido, num_plantios2 = num_plantios,
               plantios_com_colheita2 = plantios_com_colheita,
               taxa2 = (if num_plantios > 0 then of_nat plantios_com_colheita / of_nat num_plantios
                        else 0)\<rparr>))"

text \<open>
  Lines 138-153, the status of one bed. The total counts the plantings of the bed in the joined
  table as loaded. The harvested count is taken from a right join of the harvests with the
  plantings, which keeps every planting. The colour is green from a rate of 0.6 (good), yellow
  from 0.25 (attention), red below (needs action).
\<close>

definition status_color :: "rat \<Rightarrow> string" where
  "status_color taxa =
     (if taxa \<ge> 0.6 then ''#2ECC71'' else if taxa \<ge> 0.25 then ''#F1C40F'' else ''#E74C3C'')"

definition eq_cell :: "cell \<Rightarrow> cell \<Rightarrow> bool" where
  "eq_cell a b \<longleftrightarrow> a \<noteq> NA \<and> a = b"

record status2 =
  canteiro :: cell
  taxa_sucesso2 :: rat
  total2 :: nat
  colh2 :: nat
  color2 :: string

definition status_canteiro :: "frame \<Rightarrow> frame \<Rightarrow> frame \<Rightarrow> row \<Rightarrow> error + status2" where
  "status_canteiro canteiros plantios colheitas c =
     (if \<not> has_col canteiros ''canteiro_id'' then Inl (KeyError ''canteiro_id'')
      else
        let cid = c ''canteiro_id''
        in bind_err (getcol plantios ''canteiro_id'') (\<lambda>cids.
           let total = length (filter (\<lambda>x. eq_cell x cid) cids)
           in bind_err (select_cols [''plantio_id'', ''canteiro_id''] plantios) (\<lambda>pc.
              bind_err (merge HowRight ''plantio_id'' colheitas pc) (\<lambda>colh.
              bind_err (getcol colh ''canteiro_id'') (\<lambda>_.
              let colh_cnt = nunique (col (where_rows (\<lambda>r. eq_cell (r ''canteiro_id'') cid) colh) ''plantio_id'');
                  taxa = (if total > 0 then of_nat colh_cnt / of_nat total else 0)
              in if \<not> has_col canteiros ''nome'' then Inl (KeyError ''nome'')
                 else Inr \<lparr>canteiro = c ''nome'', taxa_sucesso2 = taxa, total2 = total,
                           colh2 = colh_cnt, color2 = status_color taxa\<rparr>)))))"

fun traverse :: "('a \<Rightarrow> error + 'b) \<Rightarrow> 'a list \<Rightarrow> error + 'b list" where
  "traverse f [] = Inr []"
| "traverse f (x # xs) = bind_err (f x) (\<lambda>y. bind_err (traverse f xs) (\<lambda>ys. Inr (y # ys)))"

definition status_mapa :: "frame \<Rightarrow> frame \<Rightarrow> frame \<Rightarrow> error + status2 list" where
  "status_mapa canteiros plantios colheitas =
     traverse (status_canteiro canteiros plantios colheitas) (rows canteiros)"

section \<open>The six tables\<close>

record tabelas =
  tb_canteiros :: frame
  tb_especies :: frame
  tb_plantios :: frame
  tb_observ :: frame
  tb_colheitas :: frame
  tb_eventos :: frame

text \<open>
  \<^verbatim>\<open>app2.py\<close> from the loaded tables to the filtered plantings, the top indicators and the bed
  status, in the order of the script.
\<close>

record pagina2 =
  plantios_filtrados :: frame
  indicadores :: kpis2
  mapa :: "status2 list"

definition painel2 :: "filtros2 \<Rightarrow> tabelas \<Rightarrow> error + pagina2" where
  "painel2 f t =
     bind_err (join_nomes (tb_canteiros t) (tb_especies t) (tb_plantios t)) (\<lambda>plantios.
     bind_err (filtragem f plantios (tb_colheitas t) (tb_observ t)) (\<lambda>p.
     bind_err (top_kpis plantios (tb_colheitas t)) (\<lambda>k.
     bind_err (status_mapa (tb_canteiros t) plantios (tb_colheitas t)) (\<lambda>st.
     Inr \<lparr>plantios_filtrados = p, indicadores = k, mapa = st\<rparr>))))"

section \<open>Selection of plantings (\<^verbatim>\<open>app_enhanced.py\<close>)\<close>

text \<open>Lines 68-71: the joins with the bed and species names, each under its guard.\<close>

definition join_nomes_guarded :: "frame \<Rightarrow> frame \<Rightarrow> frame \<Rightarrow> error + frame" where
  "join_nomes_guarded canteiros especies plantios =
     bind_err (if \<not> df_empty plantios \<and> has_col plantios ''canteiro_id'' \<and> \<not> df_empty canteiros
               then bind_err (select_cols [''canteiro_id'', ''nome''] canteiros) (\<lambda>c.
                      merge HowLeft ''canteiro_id'' plantios (rename_col ''nome'' ''canteiro_nome'' c))
               else Inr plantios) (\<lambda>plantios.
     if \<not> df_empty plantios \<and> has_col plantios ''especie_id'' \<and> \<not> df_empty especies
     then bind_err (select_cols [''especie_id'', ''nome_comum''] especies) (\<lambda>e.
            merge HowLeft ''especie_id'' plantios (rename_col ''nome_comum'' ''especie_nome'' e))
     else Inr plantios)"

text \<open>
  Lines 122-146, \<^verbatim>\<open>normalize_dataframes\<close>. An identifier column becomes
  \<^verbatim>\<open>pd.to_numeric(..., errors='coerce').astype('Int64')\<close>: a whole number stays, a value that is
  not a number becomes missing, and a number with a fraction makes the cast raise.
\<close>

definition whole :: "rat \<Rightarrow> bool" where
  "whole q \<longleftrightarrow> q = of_int \<lfloor>q\<rfloor>"

definition to_Int64 :: "cell \<Rightarrow> cell" where
  "to_Int64 c = (case to_numeric c of None \<Rightarrow> NA | Some q \<Rightarrow> Num q)"

definition normalize_id :: "string \<Rightarrow> frame \<Rightarrow> error + frame" where
  "normalize_id c df =
     (if \<not> df_empty df \<and> has_col df c
      then if list_all (\<lambda>x. case to_numeric x of None \<Rightarrow> True | Some q \<Rightarrow> whole q) (col df c)
           then Inr (df\<lparr>rows := map (\<lambda>r. r(c := to_Int64 (r c))) (rows df)\<rparr>)
           else Inl TypeError
      else Inr df)"

definition normalize_dataframes :: "tabelas \<Rightarrow> error + tabelas" where
  "normalize_dataframes t =
     bind_err (normalize_id ''plantio_id'' (tb_plantios t)) (\<lambda>p.
     bind_err (normalize_id ''canteiro_id'' p) (\<lambda>p.
     bind_err (normalize_id ''especie_id'' p) (\<lambda>p.
     bind_err (normalize_id ''plantio_id'' (tb_colheitas t)) (\<lambda>ch.
     bind_err (Inr (normalize_quantidade ch)) (\<lambda>ch.
     bind_err (normalize_id ''plantio_id'' (tb_observ t)) (\<lambda>ob.
     bind_err (normalize_id ''plantio_id'' (tb_eventos t)) (\<lambda>ev.
     bind_err (normalize_id ''canteiro_id'' (tb_canteiros t)) (\<lambda>ca.
     bind_err (normalize_id ''especie_id'' (tb_especies t)) (\<lambda>es.
     Inr \<lparr>tb_canteiros = ca, tb_especies = es, tb_plantios = p, tb_observ = ob,
          tb_colheitas = ch, tb_eventos = ev\<rparr>)))))))))"

text \<open>
  Lines 98-119, \<^verbatim>\<open>filter_plantios(df)\<close>, the globals of the sidebar as the record \<open>f\<close>. An empty
  table and a table without \<^verbatim>\<open>data_plantio\<close> are returned as they are. No line compares the two
  ends of the date range.
\<close>

definition filter_plantios :: "filtros \<Rightarrow> frame \<Rightarrow> frame" where
  "filter_plantios f df =
     (if df_empty df then df
      else
        let (s, e) = (case date_range f of Range s e \<Rightarrow> (s, e) | Single d \<Rightarrow> (d, d))
        in if \<not> has_col df ''data_plantio'' then df
           else
             let df = where_rows (\<lambda>r. in_period s e (r ''data_plantio'')) df;
                 df = (if especie_sel f \<noteq> ''Todas'' \<and> has_col df ''especie_nome''
                       then where_rows (\<lambda>r. r ''especie_nome'' = Txt (especie_sel f)) df else df);
                 df = (if canteiro_sel f \<noteq> ''Todos'' \<and> has_col df ''canteiro_nome''
                       then where_rows (\<lambda>r. r ''canteiro_nome'' = Txt (canteiro_sel f)) df else df);
                 df = (if responsavel_sel f \<noteq> ''Todos'' \<and> has_col df ''responsavel''
                       then where_rows (\<lambda>r. r ''responsavel'' = Txt (responsavel_sel f)) df else df)
             in df)"

section \<open>Dashboard (\<^verbatim>\<open>app_enhanced.py\<close>)\<close>

text \<open>
  Line 420, the colour of a bed card: dark green from a rate of 0.6 (the legend's 60 % or
  more), orange from 0.25, red below 25 %.
\<close>

definition card_color :: "rat \<Rightarrow> string" where
  "card_color r = (if r \<ge> 0.6 then ''#1B5E20'' else if r \<ge> 0.25 then ''#F57F17'' else ''#B71C1C'')"

record card =
  card_nome :: cell
  card_total :: nat
  card_harvested :: nat
  card_rate :: rat
  card_color_hex :: string

text \<open>
  Lines 402-420, the bed cards, from the bed table and the filtered plantings and harvests. The
  two dictionaries are modelled by their \<^verbatim>\<open>get(cid, 0)\<close>; \<^verbatim>\<open>groupby\<close> drops missing keys.
\<close>

definition bed_card :: "(cell \<Rightarrow> nat) \<Rightarrow> (cell \<Rightarrow> nat) \<Rightarrow> frame \<Rightarrow> row \<Rightarrow> card" where
  "bed_card totals harvested canteiros c =
     (let cid = (if has_col canteiros ''canteiro_id'' then c ''canteiro_id'' else NA);
          total = totals cid;
          harvested_cnt = harvested cid;
          r = (if total > 0 then of_nat harvested_cnt / of_nat total else 0)
      in \<lparr>card_nome = (if has_col canteiros ''nome'' then c ''nome'' else Txt ''-''),
          card_total = total, card_harvested = harvested_cnt, card_rate = r,
          card_color_hex = card_color r\<rparr>)"

definition count_by_canteiro :: "frame \<Rightarrow> cell \<Rightarrow> nat" where
  "count_by_canteiro df cid =
     nunique (col (where_rows (\<lambda>r. eq_cell (r ''canteiro_id'') cid) df) ''plantio_id'')"

definition bed_cards :: "frame \<Rightarrow> frame \<Rightarrow> frame \<Rightarrow> error + card list" where
  "bed_cards canteiros plantios_f colheitas_f =
     (if df_empty canteiros then Inr []
      else
        bind_err (if \<not> df_empty plantios_f \<and> has_col plantios_f ''canteiro_id''
                  then if has_col plantios_f ''plantio_id'' then Inr (count_by_canteiro plantios_f)
                       else Inl (AttributeError ''plantio_id'')
                  else Inr (\<lambda>cid. 0)) (\<lambda>totals.
        bind_err (if \<not> df_empty colheitas_f \<and> has_col colheitas_f ''plantio_id''
                     \<and> \<not> df_empty plantios_f \<and> has_col plantios_f ''plantio_id''
                  then bind_err (select_cols [''plantio_id'', ''canteiro_id''] plantios_f) (\<lambda>pc.
                       bind_err (merge HowInner ''plantio_id'' colheitas_f pc) (\<lambda>merged.
                       bind_err (getcol merged ''canteiro_id'') (\<lambda>_.
                       Inr (count_by_canteiro merged))))
                  else Inr (\<lambda>cid. 0)) (\<lambda>harvested.
        Inr (map (bed_card totals harvested canteiros) (rows canteiros)))))"

text \<open>
  Lines 339-351, the indicators of the dashboard, from the filtered tables (the mean per planting
  is left out); lines 355-357, the join that feeds the charts, which reads three columns of the
  filtered plantings; then the bed cards.
\<close>

record dashboard =
  kpi_total_colhido :: rat
  kpi_total_plantios :: nat
  kpi_plantios_colhidos :: nat
  kpi_num_observ :: nat
  kpi_cards :: "card list"

definition dashboard_page :: "frame \<Rightarrow> frame \<Rightarrow> frame \<Rightarrow> frame \<Rightarrow> error + dashboard" where
  "dashboard_page canteiros plantios_f colheitas_f observ_f =
     (let total_colhido = (if \<not> df_empty colheitas_f
                           then (if has_col colheitas_f ''quantidade_colhida''
                                 then sum_num (col colheitas_f ''quantidade_colhida'') else 0)
                           else 0);
          total_plantios = (if \<not> df_empty plantios_f then length (rows plantios_f) else 0);
          plantios_colhidos = (if \<not> df_empty colheitas_f \<and> has_col colheitas_f ''plantio_id''
                               then nunique (col colheitas_f ''plantio_id'') else 0);
          num_observ = (if \<not> df_empty observ_f then length (rows observ_f) else 0)
      in bind_err (if \<not> df_empty colheitas_f \<and> \<not> df_empty plantios_f
                      \<and> has_col colheitas_f ''plantio_id'' \<and> has_col plantios_f ''plantio_id''
                   then bind_err (select_cols [''plantio_id'', ''especie_nome'', ''canteiro_nome''] plantios_f)
                          (merge HowLeft ''plantio_id'' colheitas_f)
                   else Inr DataFrame_empty) (\<lambda>merged.
         bind_err (bed_cards canteiros plantios_f colheitas_f) (\<lambda>cs.
         Inr \<lparr>kpi_total_colhido = total_colhido, kpi_total_plantios = total_plantios,
              kpi_plantios_colhidos = plantios_colhidos, kpi_num_observ = num_observ,
              kpi_cards = cs\<rparr>)))"

text \<open>
  Lines 148-176 and the dashboard: the tables are normalised, the plantings filtered, the selected
  ids propagated to harvests, observations and events, and the dashboard computed from the
  filtered tables.
\<close>

definition painel_filtrado :: "filtros \<Rightarrow> tabelas \<Rightarrow> error + dashboard" where
  "painel_filtrado f t =
     (let plantios_f = filter_plantios f (tb_plantios t);
          plantio_ids = plantio_ids_of plantios_f;
          colheitas_f = filter_by_plantios_table plantio_ids (tb_colheitas t);
          observ_f = filter_by_plantios_table plantio_ids (tb_observ t)
      in dashboard_page (tb_canteiros t) plantios_f colheitas_f observ_f)"

definition painel :: "filtros \<Rightarrow> tabelas \<Rightarrow> error + dashboard" where
  "painel f t =
     bind_err (join_nomes_guarded (tb_canteiros t) (tb_especies t) (tb_plantios t)) (\<lambda>plantios.
     bind_err (normalize_dataframes (t\<lparr>tb_plantios := plantios\<rparr>)) (painel_filtrado f))"

section \<open>Loading the six files\<close>

text \<open>
  The directory of the application maps a file name to what pandas makes of the file, or to
  \<open>None\<close> when there is no such file. A file is described by the outcome of each way the code
  reads it: \<open>read_fixed\<close> for \<^verbatim>\<open>pd.read_csv(path, parse_dates=[...])\<close> with the date columns
  named in the code (\<^verbatim>\<open>app.py\<close>, \<^verbatim>\<open>app2.py\<close>), \<open>read_detected\<close> for the two reads in the
  \<^verbatim>\<open>try\<close> block of \<^verbatim>\<open>safe_load\<close> (the header, then the table with the date columns found in
  the header), \<open>read_plain\<close> for its fallback read without dates. A message records the
  \<^verbatim>\<open>st.error\<close> or \<^verbatim>\<open>st.warning\<close> shown and the file it names.
\<close>

datatype message = StError string | StWarning string

record csv_file =
  read_fixed :: "error + frame"
  read_detected :: "error + frame"
  read_plain :: "error + frame"

type_synonym files = "string \<Rightarrow> csv_file option"

definition file_names :: "string list" where
  "file_names = [''canteiros.csv'', ''especies.csv'', ''plantios.csv'', ''observacoes.csv'',
                 ''colheitas.csv'', ''eventos_manejo.csv'']"

text \<open>\<^verbatim>\<open>app_enhanced.py\<close>, lines 42-58, \<^verbatim>\<open>safe_load(name)\<close>: the messages shown and the table.\<close>

definition safe_load :: "files \<Rightarrow> string \<Rightarrow> message list \<times> frame" where
  "safe_load fs name =
     (case fs name of
        None \<Rightarrow> ([StError name], DataFrame_empty)
      | Some f \<Rightarrow>
          (case read_detected f of
             Inr df \<Rightarrow> ([], df)
           | Inl e \<Rightarrow>
               (case read_plain f of
                  Inr df \<Rightarrow> ([StWarning name], df)
                | Inl e2 \<Rightarrow> ([StWarning name, StError name], DataFrame_empty))))"

text \<open>Lines 60-65: the six calls, which always yield six tables.\<close>

definition load_tables :: "files \<Rightarrow> message list \<times> tabelas" where
  "load_tables fs =
     (let c = safe_load fs ''canteiros.csv''; e = safe_load fs ''especies.csv'';
          p = safe_load fs ''plantios.csv''; ob = safe_load fs ''observacoes.csv'';
          h = safe_load fs ''colheitas.csv''; ev = safe_load fs ''eventos_manejo.csv''
      in (fst c @ fst e @ fst p @ fst ob @ fst h @ fst ev,
          \<lparr>tb_canteiros = snd c, tb_especies = snd e, tb_plantios = snd p, tb_observ = snd ob,
           tb_colheitas = snd h, tb_eventos = snd ev\<rparr>))"

text \<open>
  \<^verbatim>\<open>app2.py\<close>, lines 18-37, \<^verbatim>\<open>load_data()\<close>: an \<^verbatim>\<open>st.error\<close> for each file that does not
  exist, and then the six reads all the same; reading a file that does not exist raises
  \<^verbatim>\<open>FileNotFoundError\<close>.
\<close>

definition read_csv :: "files \<Rightarrow> string \<Rightarrow> error + frame" where
  "read_csv fs name = (case fs name of None \<Rightarrow> Inl (FileNotFoundError name) | Some f \<Rightarrow> read_fixed f)"

definition load_data :: "files \<Rightarrow> message list \<times> (error + tabelas)" where
  "load_data fs =
     (map StError (filter (\<lambda>n. fs n = None) file_names),
      bind_err (read_csv fs ''canteiros.csv'') (\<lambda>c.
      bind_err (read_csv fs ''especies.csv'') (\<lambda>e.
      bind_err (read_csv fs ''plantios.csv'') (\<lambda>p.
      bind_err (read_csv fs ''observacoes.csv'') (\<lambda>ob.
      bind_err (read_csv fs ''colheitas.csv'') (\<lambda>h.
      bind_err (read_csv fs ''eventos_manejo.csv'') (\<lambda>ev.
      Inr \<lparr>tb_canteiros = c, tb_especies = e, tb_plantios = p, tb_observ = ob,
           tb_colheitas = h, tb_eventos = ev\<rparr>)))))))"

text \<open>The two applications from the directory to the page.\<close>

definition app_enhanced :: "filtros \<Rightarrow> files \<Rightarrow> message list \<times> (error + dashboard)" where
  "app_enhanced f fs = (fst (load_tables fs), painel f (snd (load_tables fs)))"

definition app2 :: "filtros2 \<Rightarrow> files \<Rightarrow> message list \<times> (error + pagina2)" where
  "app2 f fs = (fst (load_data fs), bind_err (snd (load_data fs)) (painel2 f))"

section \<open>Grouped sums\<close>

text \<open>
  \<^verbatim>\<open>df.groupby(key, dropna=...)[val].sum().reset_index()\<close>: one line per distinct key, in the
  order of the keys, with the sum of the group's values, missing values skipped. With
  \<^verbatim>\<open>dropna=True\<close>, the default, the rows whose key is missing are left out; with
  \<^verbatim>\<open>dropna=False\<close> they form a group of their own, listed last. Keys are ordered numbers first,
  then texts, then dates.
\<close>

fun cell_key :: "cell \<Rightarrow> nat \<times> rat \<times> string" where
  "cell_key (Num q) = (0, q, [])"
| "cell_key (Txt s) = (1, 0, s)"
| "cell_key (Day d) = (2, of_int d, [])"
| "cell_key NA = (3, 0, [])"

definition group_keys :: "bool \<Rightarrow> cell list \<Rightarrow> cell list" where
  "group_keys dropna ks = sort_key cell_key (remdups (if dropna then filter (\<lambda>k. k \<noteq> NA) ks else ks))"

definition groupby_sum :: "bool \<Rightarrow> string \<Rightarrow> string \<Rightarrow> frame \<Rightarrow> error + (cell \<times> rat) list" where
  "groupby_sum dropna key val df =
     (if \<not> has_col df key then Inl (KeyError key)
      else if \<not> has_col df val then Inl (AttributeError val)
      else if \<not> numeric_cells (col df val) then Inl (Unmodelled ''sum of a non-numeric column'')
      else Inr (map (\<lambda>k. (k, sum_num (col (where_rows (\<lambda>r. r key = k) df) val)))
                  (group_keys dropna (col df key))))"

text \<open>
  \<^verbatim>\<open>.sort_values(val, ascending=False)\<close>. Lines with equal sums keep their order here; pandas
  leaves their order to its sorting routine.
\<close>

definition sort_values_desc :: "(cell \<times> rat) list \<Rightarrow> (cell \<times> rat) list" where
  "sort_values_desc g = sort_key (\<lambda>kv. - snd kv) g"

text \<open>
  \<^verbatim>\<open>app.py\<close>, lines 69-72: harvests joined with plantings and species, filtered by the chosen
  species, summed by species name with \<^verbatim>\<open>dropna=False\<close>, sorted by sum, largest first.
\<close>

definition prod_sum :: "string \<Rightarrow> frame \<Rightarrow> frame \<Rightarrow> frame \<Rightarrow> error + (cell \<times> rat) list" where
  "prod_sum sel colheitas plantios especies =
     bind_err (merge HowLeft ''plantio_id'' colheitas plantios) (\<lambda>m.
     bind_err (merge HowLeft ''especie_id'' m especies) (\<lambda>prod.
     bind_err (if sel \<noteq> ''Todas'' then filter_eq ''nome_comum'' sel prod else Inr prod) (\<lambda>prod.
     bind_err (groupby_sum False ''nome_comum'' ''quantidade_colhida'' prod) (\<lambda>g.
     Inr (sort_values_desc g)))))"

text \<open>
  \<^verbatim>\<open>app2.py\<close>, lines 168-171: the same over two columns of each joined table, the grouping
  with the default \<^verbatim>\<open>dropna=True\<close>.
\<close>

definition prod_sum2 :: "string \<Rightarrow> frame \<Rightarrow> frame \<Rightarrow> frame \<Rightarrow> error + (cell \<times> rat) list" where
  "prod_sum2 sel colheitas plantios especies =
     bind_err (select_cols [''plantio_id'', ''especie_id''] plantios) (\<lambda>ps.
     bind_err (merge HowLeft ''plantio_id'' colheitas ps) (\<lambda>m.
     bind_err (select_cols [''especie_id'', ''nome_comum''] especies) (\<lambda>es.
     bind_err (merge HowLeft ''especie_id'' m es) (\<lambda>prod.
     bind_err (if sel \<noteq> ''Todas'' then filter_eq ''nome_comum'' sel prod else Inr prod) (\<lambda>prod.
     bind_err (groupby_sum True ''nome_comum'' ''quantidade_colhida'' prod) (\<lambda>g.
     Inr (sort_values_desc g)))))))"
section \<open>Example tables\<close>

text \<open>An event table whose file has no \<^verbatim>\<open>plantio_id\<close> header.\<close>

definition eventos_sem_plantio_id :: frame where
  "eventos_sem_plantio_id =
     \<lparr>columns = [''evento_id'', ''data_evento'', ''tipo_evento''],
      rows = [mk_row [(''evento_id'', Num 1), (''data_evento'', Day 20000), (''tipo_evento'', Txt ''rega'')],
              mk_row [(''evento_id'', Num 2), (''data_evento'', Day 20001), (''tipo_evento'', Txt ''poda'')]]\<rparr>"

text \<open>A harvest table with a numeric, a textual and a missing planting id.\<close>

definition colheitas_ids_mistos :: frame where
  "colheitas_ids_mistos =
     \<lparr>columns = [''plantio_id'', ''quantidade_colhida''],
      rows = [mk_row [(''plantio_id'', Num 100), (''quantidade_colhida'', Num 5)],
              mk_row [(''plantio_id'', Txt ''abc''), (''quantidade_colhida'', Num 7)],
              mk_row [(''plantio_id'', NA), (''quantidade_colhida'', Num 2)]]\<rparr>"

text \<open>An observation table whose file has no \<^verbatim>\<open>plantio_id\<close> header.\<close>

definition observ_sem_plantio_id :: frame where
  "observ_sem_plantio_id =
     \<lparr>columns = [''observacao_id'', ''altura_cm''],
      rows = [mk_row [(''observacao_id'', Num 1), (''altura_cm'', Num 12)]]\<rparr>"

text \<open>A planting table without rows, one with a single planting, and harvests of two plantings.\<close>

definition plantios_vazio :: frame where
  "plantios_vazio = \<lparr>columns = [''plantio_id'', ''canteiro_id'', ''especie_id''], rows = []\<rparr>"




text \<open>
  The tables of the end-to-end scenario: the bed A of 10 square metres, the species Tomato, the
  planting 100 of Tomato in A on 2025-01-01 (day 20089) and its harvest of 5 on 2025-03-01
  (day 20148); no observation and no event.
\<close>

definition cenario :: tabelas where
  "cenario =
     \<lparr>tb_canteiros = \<lparr>columns = [''canteiro_id'', ''nome'', ''area_m2''],
                      rows = [mk_row [(''canteiro_id'', Num 1), (''nome'', Txt ''A''), (''area_m2'', Num 10)]]\<rparr>,
      tb_especies = \<lparr>columns = [''especie_id'', ''nome_comum''],
                     rows = [mk_row [(''especie_id'', Num 1), (''nome_comum'', Txt ''Tomato'')]]\<rparr>,
      tb_plantios = \<lparr>columns = [''plantio_id'', ''canteiro_id'', ''especie_id'', ''data_plantio''],
                     rows = [mk_row [(''plantio_id'', Num 100), (''canteiro_id'', Num 1),
                                     (''especie_id'', Num 1), (''data_plantio'', Day 20089)]]\<rparr>,
      tb_observ = \<lparr>columns = [''observacao_id'', ''plantio_id'', ''comentarios''], rows = []\<rparr>,
      tb_colheitas = \<lparr>columns = [''plantio_id'', ''data_colheita'', ''quantidade_colhida''],
                      rows = [mk_row [(''plantio_id'', Num 100), (''data_colheita'', Day 20148),
                                      (''quantidade_colhida'', Num 5)]]\<rparr>,
      tb_eventos = \<lparr>columns = [''evento_id'', ''plantio_id'', ''tipo_evento''], rows = []\<rparr>\<rparr>"

text \<open>The same tables after the joins with the bed and species names.\<close>

definition cenario_nomes :: tabelas where
  "cenario_nomes =
     cenario\<lparr>tb_plantios :=
       \<lparr>columns = [''plantio_id'', ''canteiro_id'', ''especie_id'', ''data_plantio'',
                   ''canteiro_nome'', ''especie_nome''],
        rows = [mk_row [(''plantio_id'', Num 100), (''canteiro_id'', Num 1), (''especie_id'', Num 1),
                        (''data_plantio'', Day 20089), (''canteiro_nome'', Txt ''A''),
                        (''especie_nome'', Txt ''Tomato'')]]\<rparr>\<rparr>"

text \<open>No filter, and the filter on the species Basil, which no table names.\<close>

definition sem_filtro :: filtros where
  "sem_filtro = \<lparr>date_range = Range 20000 20500, especie_sel = ''Todas'', canteiro_sel = ''Todos'',
                  responsavel_sel = ''Todos''\<rparr>"

definition filtro_basil :: filtros where
  "filtro_basil = sem_filtro\<lparr>especie_sel := ''Basil''\<rparr>"






text \<open>The settings of \<^verbatim>\<open>app2.py\<close> without any filter, and with the date range reversed.\<close>

definition sem_filtro2 :: filtros2 where
  "sem_filtro2 = \<lparr>date_range = Range 20000 20500, especie_sel = ''Todas'', canteiro_sel = ''Todos'',
                   responsavel_sel = ''Todos'', metodo_sel = ''Todos'', only_active = False,
                   search_text = []\<rparr>"

text \<open>
  A directory with the six files of the scenario, read without errors; the same directory
  without \<^verbatim>\<open>colheitas.csv\<close>; and without \<^verbatim>\<open>especies.csv\<close>.
\<close>

definition lido :: "frame \<Rightarrow> csv_file option" where
  "lido df = Some \<lparr>read_fixed = Inr df, read_detected = Inr df, read_plain = Inr df\<rparr>"

definition arquivos :: files where
  "arquivos name =
     (if name = ''canteiros.csv'' then lido (tb_canteiros cenario)
      else if name = ''especies.csv'' then lido (tb_especies cenario)
      else if name = ''plantios.csv'' then lido (tb_plantios cenario)
      else if name = ''observacoes.csv'' then lido (tb_observ cenario)
      else if name = ''colheitas.csv'' then lido (tb_colheitas cenario)
      else if name = ''eventos_manejo.csv'' then lido (tb_eventos cenario)
      else None)"

definition arquivos_sem_colheitas :: files where
  "arquivos_sem_colheitas = arquivos(''colheitas.csv'' := None)"

definition arquivos_sem_especies :: files where
  "arquivos_sem_especies = arquivos(''especies.csv'' := None)"

text \<open>
  The scenario with a second planting, 101, of a species 9 that the species table does not
  list, and its harvest of 2.
\<close>

definition plantios_especie_9 :: frame where
  "plantios_especie_9 =
     \<lparr>columns = [''plantio_id'', ''canteiro_id'', ''especie_id'', ''data_plantio''],
      rows = [mk_row [(''plantio_id'', Num 100), (''canteiro_id'', Num 1),
                      (''especie_id'', Num 1), (''data_plantio'', Day 20089)],
              mk_row [(''plantio_id'', Num 101), (''canteiro_id'', Num 1),
                      (''especie_id'', Num 9), (''data_plantio'', Day 20090)]]\<rparr>"

definition colheitas_especie_9 :: frame where
  "colheitas_especie_9 =
     \<lparr>columns = [''plantio_id'', ''data_colheita'', ''quantidade_colhida''],
      rows = [mk_row [(''plantio_id'', Num 100), (''data_colheita'', Day 20148),
                      (''quantidade_colhida'', Num 5)],
              mk_row [(''plantio_id'', Num 101), (''data_colheita'', Day 20149),
                      (''quantidade_colhida'', Num 2)]]\<rparr>"

section \<open>Properties\<close>


lemma astype_int_of_int: "astype_int (of_int n) = n"
  by (simp add: astype_int_def)





subsection \<open>Harvest quantity coercion\<close>




subsection \<open>Propagation to a table without the planting-id column\<close>

text \<open>
  C10. For every non-empty child table that has no \<^verbatim>\<open>plantio_id\<close> column,
  \<^verbatim>\<open>filter_by_plantios_table\<close> returns the whole table unfiltered, whatever the selection of
  planting ids is, the empty selection included.
\<close>

theorem filter_by_plantios_table_without_column:
  "\<not> df_empty df \<Longrightarrow> \<not> has_col df ''plantio_id'' \<Longrightarrow>
     filter_by_plantios_table plantio_ids df = df \<and> filter_by_plantios_table {} df = df"
  by (simp add: filter_by_plantios_table_def)

text \<open>An event table of two rows without the column comes back whole.\<close>

theorem filter_by_plantios_table_without_column_witness:
  "\<not> df_empty eventos_sem_plantio_id \<and> \<not> has_col eventos_sem_plantio_id ''plantio_id''
   \<and> filter_by_plantios_table {100} eventos_sem_plantio_id = eventos_sem_plantio_id
   \<and> filter_by_plantios_table {} eventos_sem_plantio_id = eventos_sem_plantio_id"
proof -
  have e: "\<not> df_empty eventos_sem_plantio_id"
    by (simp add: df_empty_def eventos_sem_plantio_id_def)
  have c: "\<not> has_col eventos_sem_plantio_id ''plantio_id''"
    by (simp add: has_col_def eventos_sem_plantio_id_def)
  show ?thesis
    using e c filter_by_plantios_table_without_column [OF e c, of "{100}"] by simp
qed

subsection \<open>Propagation of the selection\<close>

lemma rows_where_rows: "rows (where_rows keep df) = filter keep (rows df)"
  by (simp add: where_rows_def)

lemma columns_where_rows: "columns (where_rows keep df) = columns df"
  by (simp add: where_rows_def)

lemma rows_filter_by_plantios_table:
  "has_col df ''plantio_id'' \<Longrightarrow>
     rows (filter_by_plantios_table ids df) =
       filter (\<lambda>r. ids \<noteq> {} \<and> astype_int (fillna (- 1) (to_numeric (r ''plantio_id''))) \<in> ids) (rows df)"
  by (auto simp: filter_by_plantios_table_def DataFrame_empty_def df_empty_def rows_where_rows
        has_col_def intro: filter_cong)

lemma astype_int_minus_1: "astype_int (- 1) = - 1"
  using astype_int_of_int [of "- 1"] by simp

lemma astype_int_numeral: "astype_int (numeral n) = numeral n"
  using astype_int_of_int [of "numeral n"] by simp

text \<open>
  C1, as the code has it. With an empty selection of planting ids, propagation to a child table
  that has a \<^verbatim>\<open>plantio_id\<close> column returns no row, and propagation to an empty table returns the
  empty table (a non-empty table without the column comes back unfiltered, see C10). In a table
  with the column a row is kept only if its coerced id, -1 for an id that is not a number, is
  selected; so a row whose id is not a number is excluded whenever -1 is not itself a selected
  id. In \<^verbatim>\<open>app2.py\<close> the \<^verbatim>\<open>isin\<close> filter against a planting table without rows keeps no
  row of the child table.
\<close>

theorem propagate_selection:
  "(has_col df ''plantio_id'' \<longrightarrow> rows (filter_by_plantios_table {} df) = [])
   \<and> (df_empty df \<longrightarrow> filter_by_plantios_table ids df = DataFrame_empty)
   \<and> (has_col df ''plantio_id'' \<and> r \<in> set (rows (filter_by_plantios_table ids df))
        \<longrightarrow> astype_int (fillna (- 1) (to_numeric (r ''plantio_id''))) \<in> ids)
   \<and> (has_col df ''plantio_id'' \<and> to_numeric (r' ''plantio_id'') = None \<and> - 1 \<notin> ids
        \<longrightarrow> r' \<notin> set (rows (filter_by_plantios_table ids df)))
   \<and> (has_col child ''plantio_id'' \<and> has_col p ''plantio_id'' \<and> rows p = []
        \<longrightarrow> isin_plantios p child = Inr (child\<lparr>rows := []\<rparr>))"
proof (intro conjI impI)
  show "rows (filter_by_plantios_table {} df) = []" if "has_col df ''plantio_id''"
    using that by (simp add: rows_filter_by_plantios_table)
  show "filter_by_plantios_table ids df = DataFrame_empty" if "df_empty df"
    using that by (simp add: filter_by_plantios_table_def)
  show "astype_int (fillna (- 1) (to_numeric (r ''plantio_id''))) \<in> ids"
    if "has_col df ''plantio_id'' \<and> r \<in> set (rows (filter_by_plantios_table ids df))"
    using that by (auto simp: rows_filter_by_plantios_table)
  show "r' \<notin> set (rows (filter_by_plantios_table ids df))"
    if "has_col df ''plantio_id'' \<and> to_numeric (r' ''plantio_id'') = None \<and> - 1 \<notin> ids"
    using that by (auto simp: rows_filter_by_plantios_table fillna_def astype_int_minus_1)
  show "isin_plantios p child = Inr (child\<lparr>rows := []\<rparr>)"
    if "has_col child ''plantio_id'' \<and> has_col p ''plantio_id'' \<and> rows p = []"
    using that by (simp add: isin_plantios_def where_rows_def col_def)
qed

text \<open>
  The harvest table with the ids 100, \<open>abc\<close> and missing: under the selection \<open>{100}\<close> the first
  row is kept and the row \<open>abc\<close> is excluded; under the empty selection nothing is kept.
\<close>

lemma rows_colheitas_ids_mistos_100:
  "rows (filter_by_plantios_table {100} colheitas_ids_mistos) =
     [mk_row [(''plantio_id'', Num 100), (''quantidade_colhida'', Num 5)]]"
  by (simp add: filter_by_plantios_table_def df_empty_def has_col_def colheitas_ids_mistos_def
        where_rows_def mk_row_def fillna_def astype_int_minus_1 astype_int_numeral)

theorem propagate_selection_witness:
  "has_col colheitas_ids_mistos ''plantio_id''
   \<and> rows (filter_by_plantios_table {} colheitas_ids_mistos) = []
   \<and> df_empty plantios_vazio \<and> filter_by_plantios_table {100} plantios_vazio = DataFrame_empty
   \<and> mk_row [(''plantio_id'', Num 100), (''quantidade_colhida'', Num 5)]
        \<in> set (rows (filter_by_plantios_table {100} colheitas_ids_mistos))
   \<and> astype_int (fillna (- 1) (to_numeric
        (mk_row [(''plantio_id'', Num 100), (''quantidade_colhida'', Num 5)] ''plantio_id''))) \<in> {100}
   \<and> to_numeric (mk_row [(''plantio_id'', Txt ''abc''), (''quantidade_colhida'', Num 7)] ''plantio_id'') = None
   \<and> - 1 \<notin> {100::int}
   \<and> mk_row [(''plantio_id'', Txt ''abc''), (''quantidade_colhida'', Num 7)]
        \<notin> set (rows (filter_by_plantios_table {100} colheitas_ids_mistos))
   \<and> rows plantios_vazio = []
   \<and> isin_plantios plantios_vazio colheitas_ids_mistos = Inr (colheitas_ids_mistos\<lparr>rows := []\<rparr>)"
proof -
  have c: "has_col colheitas_ids_mistos ''plantio_id''"
    by (simp add: has_col_def colheitas_ids_mistos_def)
  have pc: "has_col plantios_vazio ''plantio_id''"
    by (simp add: has_col_def plantios_vazio_def)
  have e: "df_empty plantios_vazio" and pr: "rows plantios_vazio = []"
    by (simp_all add: df_empty_def plantios_vazio_def)
  have k: "mk_row [(''plantio_id'', Num 100), (''quantidade_colhida'', Num 5)]
        \<in> set (rows (filter_by_plantios_table {100} colheitas_ids_mistos))"
    by (simp add: rows_colheitas_ids_mistos_100)
  have t: "to_numeric (mk_row [(''plantio_id'', Txt ''abc''), (''quantidade_colhida'', Num 7)] ''plantio_id'') = None"
    by (simp add: mk_row_def)
  have m: "- 1 \<notin> {100::int}" by simp
  from propagate_selection [of colheitas_ids_mistos "{100}"
      "mk_row [(''plantio_id'', Num 100), (''quantidade_colhida'', Num 5)]"
      "mk_row [(''plantio_id'', Txt ''abc''), (''quantidade_colhida'', Num 7)]"
      colheitas_ids_mistos plantios_vazio]
    propagate_selection [of plantios_vazio "{100}"] c pc e pr k t m
  show ?thesis by blast
qed

text \<open>
  C1 as stated fails: the planting table has no row, so the selection is empty, and the
  observation table without a \<^verbatim>\<open>plantio_id\<close> column is returned unfiltered, with its row.
\<close>

theorem propagate_unfiltered_counterexample:
  "plantio_ids_of plantios_vazio = {}
   \<and> filter_by_plantios_table (plantio_ids_of plantios_vazio) observ_sem_plantio_id = observ_sem_plantio_id
   \<and> rows (filter_by_plantios_table (plantio_ids_of plantios_vazio) observ_sem_plantio_id) \<noteq> []"
  by (simp add: plantio_ids_of_def df_empty_def plantios_vazio_def filter_by_plantios_table_def
        has_col_def observ_sem_plantio_id_def)

subsection \<open>Success rate\<close>








subsection \<open>Bed status\<close>

















subsection \<open>Dashboard over an empty selection\<close>







lemma painel_filtrado_basil:
  "painel_filtrado filtro_basil cenario_nomes =
     Inr \<lparr>kpi_total_colhido = 0, kpi_total_plantios = 0, kpi_plantios_colhidos = 0,
          kpi_num_observ = 0,
          kpi_cards = [\<lparr>card_nome = Txt ''A'', card_total = 0, card_harvested = 0, card_rate = 0,
                        card_color_hex = ''#B71C1C''\<rparr>]\<rparr>"
  by code_simp

lemma painel_basil:
  "painel filtro_basil cenario =
     Inr \<lparr>kpi_total_colhido = 0, kpi_total_plantios = 0, kpi_plantios_colhidos = 0,
          kpi_num_observ = 0,
          kpi_cards = [\<lparr>card_nome = Txt ''A'', card_total = 0, card_harvested = 0, card_rate = 0,
                        card_color_hex = ''#B71C1C''\<rparr>]\<rparr>"
  by code_simp

lemma painel_sem_filtro:
  "painel sem_filtro cenario =
     Inr \<lparr>kpi_total_colhido = 5, kpi_total_plantios = 1, kpi_plantios_colhidos = 1,
          kpi_num_observ = 0,
          kpi_cards = [\<lparr>card_nome = Txt ''A'', card_total = 1, card_harvested = 1, card_rate = 1,
                        card_color_hex = ''#1B5E20''\<rparr>]\<rparr>"
  by code_simp




subsection \<open>Selection of plantings in \<^verbatim>\<open>app2.py\<close>\<close>

lemma bind_err_Inr: "bind_err x f = Inr y \<longleftrightarrow> (\<exists>v. x = Inr v \<and> f v = Inr y)"
  by (cases x) (simp_all add: bind_err_def)










subsection \<open>A date range that ends before it starts\<close>





subsection \<open>Search in notes and observation comments\<close>








subsection \<open>Grouped sums\<close>

lemma sum_list_insort_key:
  "sum_list (map h (insort_key f x xs)) = h x + sum_list (map h xs)"
  for h :: "'a \<Rightarrow> rat"
  by (induction xs) (simp_all add: add.left_commute)

lemma sum_list_sort_key: "sum_list (map h (sort_key f xs)) = sum_list (map h xs)"
  for h :: "'a \<Rightarrow> rat"
  by (induction xs) (simp_all add: sum_list_insort_key)

lemma sum_list_pick_none:
  fixes a :: rat
  shows "k0 \<notin> set ks \<Longrightarrow> sum_list (map (\<lambda>k. if k0 = k then a else 0) ks) = 0"
  by (induction ks) auto

lemma sum_list_pick:
  fixes a :: rat
  assumes "distinct ks" and "k0 \<in> set ks"
  shows "sum_list (map (\<lambda>k. if k0 = k then a else 0) ks) = a"
  using assms by (induction ks) (auto simp: sum_list_pick_none)

lemma sum_list_zeros: "sum_list (map (\<lambda>k. 0::rat) ks) = 0"
  by (induction ks) simp_all

lemma sum_by_groups:
  fixes h :: "'a \<Rightarrow> rat"
  assumes "distinct ks" and "\<forall>r\<in>set rs. f r \<in> set ks"
  shows "sum_list (map (\<lambda>k. sum_list (map h (filter (\<lambda>r. f r = k) rs))) ks) = sum_list (map h rs)"
  using assms(2)
proof (induction rs)
  case Nil
  show ?case by (simp add: sum_list_zeros)
next
  case (Cons r rs)
  have "sum_list (map (\<lambda>k. sum_list (map h (filter (\<lambda>r. f r = k) (r # rs)))) ks)
        = sum_list (map (\<lambda>k. (if f r = k then h r else 0)
                               + sum_list (map h (filter (\<lambda>r. f r = k) rs))) ks)"
    by (intro arg_cong [where f = sum_list] map_cong) auto
  also have "\<dots> = sum_list (map (\<lambda>k. if f r = k then h r else 0) ks)
                   + sum_list (map (\<lambda>k. sum_list (map h (filter (\<lambda>r. f r = k) rs))) ks)"
    by (simp add: sum_list_addf)
  also have "\<dots> = h r + sum_list (map h rs)"
    using Cons assms(1) by (simp add: sum_list_pick)
  finally show ?case by simp
qed

lemma group_keys_distinct: "distinct (group_keys dropna ks)"
  by (simp add: group_keys_def)

lemma set_group_keys:
  "set (group_keys dropna ks) = (if dropna then set ks - {NA} else set ks)"
  by (auto simp: group_keys_def)

lemma groupby_sum_Inr:
  assumes "groupby_sum dropna key val df = Inr g"
  shows "g = map (\<lambda>k. (k, sum_list (map (\<lambda>r. fillna 0 (to_numeric (r val)))
                                      (filter (\<lambda>r. r key = k) (rows df)))))
                 (group_keys dropna (col df key))"
  using assms
  by (auto simp: groupby_sum_def sum_num_def col_def where_rows_def comp_def split: if_splits)

text \<open>
  What the grouping of \<^verbatim>\<open>app.py\<close>, with \<^verbatim>\<open>dropna=False\<close>, guarantees: the sums are listed
  largest first, they add up to the sum of the whole column, and the rows without a key form a
  group of their own.
\<close>

lemma groupby_sum_keep_na:
  assumes "groupby_sum False key val df = Inr g"
  shows "sorted_wrt (\<lambda>a b. snd b \<le> snd a) (sort_values_desc g)"
    and "sum_list (map snd (sort_values_desc g)) = sum_num (col df val)"
    and "NA \<in> set (col df key) \<Longrightarrow> NA \<in> fst ` set (sort_values_desc g)"
proof -
  have "sorted (map (\<lambda>kv. - snd kv) (sort_values_desc g))"
    unfolding sort_values_desc_def by (rule sorted_sort_key)
  then show "sorted_wrt (\<lambda>a b. snd b \<le> snd a) (sort_values_desc g)"
    by (simp add: sorted_map sorted_wrt_map)
  note g = groupby_sum_Inr [OF assms]
  have "sum_list (map snd g) = sum_list (map (\<lambda>r. fillna 0 (to_numeric (r val))) (rows df))"
    unfolding g
    by (simp add: comp_def)
       (rule sum_by_groups, simp add: group_keys_distinct, simp add: set_group_keys col_def)
  then show "sum_list (map snd (sort_values_desc g)) = sum_num (col df val)"
    by (simp add: sort_values_desc_def sum_list_sort_key sum_num_def col_def comp_def)
  show "NA \<in> fst ` set (sort_values_desc g)" if "NA \<in> set (col df key)"
  proof -
    from that have "NA \<in> set (group_keys False (col df key))"
      by (simp add: set_group_keys)
    then have "NA \<in> fst ` set g"
      unfolding g by (force simp: image_iff)
    then show ?thesis by (simp add: sort_values_desc_def)
  qed
qed

lemma groupby_sum_drop_na:
  assumes "groupby_sum True key val df = Inr g"
  shows "NA \<notin> fst ` set (sort_values_desc g)"
proof -
  note g = groupby_sum_Inr [OF assms]
  have "fst ` set g = set (group_keys True (col df key))"
    unfolding g by (force simp: image_iff)
  then show ?thesis by (simp add: sort_values_desc_def set_group_keys)
qed

text \<open>
  C6 on the code. A harvest of 5 of the planting 100 (Tomato) and a harvest of 2 of the planting
  101, whose species 9 is not in the species table, so that its species name is missing. The
  harvest column sums to 7. The grouping of \<^verbatim>\<open>app2.py\<close> lists Tomato with 5 and nothing else:
  the row without a name is dropped and the sums add up to 5, not 7. The grouping of
  \<^verbatim>\<open>app.py\<close> on the same tables lists Tomato with 5 and the group without a name with 2.
\<close>

theorem prod_sum2_drops_missing_species:
  "series_sum (col colheitas_especie_9 ''quantidade_colhida'') = Inr 7
   \<and> prod_sum2 ''Todas'' colheitas_especie_9 plantios_especie_9 (tb_especies cenario)
        = Inr [(Txt ''Tomato'', 5)]
   \<and> prod_sum ''Todas'' colheitas_especie_9 plantios_especie_9 (tb_especies cenario)
        = Inr [(Txt ''Tomato'', 5), (NA, 2)]"
  by code_simp

subsection \<open>Missing files\<close>

text \<open>
  \<^verbatim>\<open>safe_load\<close> answers a missing file with one error message and the empty table, and the six
  tables of \<^verbatim>\<open>app_enhanced.py\<close> are loaded one by one; \<^verbatim>\<open>load_data\<close> of \<^verbatim>\<open>app2.py\<close> reports a
  missing file and then fails.
\<close>

lemma safe_load_missing: "fs name = None \<Longrightarrow> safe_load fs name = ([StError name], DataFrame_empty)"
  by (simp add: safe_load_def)

lemma load_tables_slots:
  "tb_canteiros (snd (load_tables fs)) = snd (safe_load fs ''canteiros.csv'')"
  "tb_especies (snd (load_tables fs)) = snd (safe_load fs ''especies.csv'')"
  "tb_plantios (snd (load_tables fs)) = snd (safe_load fs ''plantios.csv'')"
  "tb_observ (snd (load_tables fs)) = snd (safe_load fs ''observacoes.csv'')"
  "tb_colheitas (snd (load_tables fs)) = snd (safe_load fs ''colheitas.csv'')"
  "tb_eventos (snd (load_tables fs)) = snd (safe_load fs ''eventos_manejo.csv'')"
  by (simp_all add: load_tables_def Let_def)

lemma load_tables_missing:
  assumes "name \<in> set file_names" and "fs name = None"
  shows "StError name \<in> set (fst (load_tables fs))"
  using assms by (auto simp: load_tables_def Let_def file_names_def safe_load_missing)

lemma read_csv_Inr: "read_csv fs name = Inr df \<Longrightarrow> fs name \<noteq> None"
  by (auto simp: read_csv_def split: option.splits)

lemma load_data_Inr:
  assumes "snd (load_data fs) = Inr t"
  shows "\<forall>name\<in>set file_names. fs name \<noteq> None"
proof -
  from assms obtain c e p ob h ev where
    "read_csv fs ''canteiros.csv'' = Inr c" "read_csv fs ''especies.csv'' = Inr e"
    "read_csv fs ''plantios.csv'' = Inr p" "read_csv fs ''observacoes.csv'' = Inr ob"
    "read_csv fs ''colheitas.csv'' = Inr h" "read_csv fs ''eventos_manejo.csv'' = Inr ev"
    unfolding load_data_def snd_conv bind_err_Inr by blast
  then show ?thesis
    by (auto simp: file_names_def dest: read_csv_Inr)
qed

lemma load_data_missing:
  assumes "name \<in> set file_names" and "fs name = None"
  shows "StError name \<in> set (fst (load_data fs))" and "\<exists>e. snd (load_data fs) = Inl e"
proof -
  show "StError name \<in> set (fst (load_data fs))"
    using assms by (simp add: load_data_def)
  show "\<exists>e. snd (load_data fs) = Inl e"
  proof (cases "snd (load_data fs)")
    case (Inl e)
    then show ?thesis by blast
  next
    case (Inr t)
    from load_data_Inr [OF this] assms show ?thesis by blast
  qed
qed

text \<open>
  C5 on the code. In the directory without \<^verbatim>\<open>colheitas.csv\<close>, \<^verbatim>\<open>load_data\<close> of \<^verbatim>\<open>app2.py\<close>
  shows the error message for the file and then raises \<^verbatim>\<open>FileNotFoundError\<close>: no table is
  returned and the page is not computed. In the directory without \<^verbatim>\<open>especies.csv\<close>,
  \<^verbatim>\<open>app_enhanced.py\<close> loads an empty species table with an error message, and the dashboard
  then raises \<^verbatim>\<open>KeyError\<close> at line 357, which reads the column \<^verbatim>\<open>especie_nome\<close> that only the
  join with a non-empty species table adds.
\<close>

theorem missing_file_failures:
  "load_data arquivos_sem_colheitas =
     ([StError ''colheitas.csv''], Inl (FileNotFoundError ''colheitas.csv''))
   \<and> fst (app2 sem_filtro2 arquivos_sem_colheitas) = [StError ''colheitas.csv'']
   \<and> map_sum id indicadores (snd (app2 sem_filtro2 arquivos_sem_colheitas)) =
        Inl (FileNotFoundError ''colheitas.csv'')
   \<and> app_enhanced sem_filtro arquivos_sem_especies =
        ([StError ''especies.csv''], Inl (KeyError ''especie_nome''))"
proof -
  have "load_data arquivos_sem_colheitas =
     ([StError ''colheitas.csv''], Inl (FileNotFoundError ''colheitas.csv''))"
    by (simp add: load_data_def read_csv_def arquivos_sem_colheitas_def arquivos_def lido_def
          bind_err_def file_names_def)
  moreover have "fst (app2 sem_filtro2 arquivos_sem_colheitas) = [StError ''colheitas.csv'']"
    by code_simp
  moreover have "map_sum id indicadores (snd (app2 sem_filtro2 arquivos_sem_colheitas)) =
        Inl (FileNotFoundError ''colheitas.csv'')"
    by code_simp
  moreover have "app_enhanced sem_filtro arquivos_sem_especies =
        ([StError ''especies.csv''], Inl (KeyError ''especie_nome''))"
    by code_simp
  ultimately show ?thesis by blast
qed

text \<open>
  Without \<^verbatim>\<open>colheitas.csv\<close>, \<^verbatim>\<open>app_enhanced.py\<close> does degrade: one message, and the dashboard
  of the scenario with no harvest.
\<close>

lemma app_enhanced_sem_colheitas:
  "app_enhanced sem_filtro arquivos_sem_colheitas =
     ([StError ''colheitas.csv''],
      Inr \<lparr>kpi_total_colhido = 0, kpi_total_plantios = 1, kpi_plantios_colhidos = 0,
           kpi_num_observ = 0,
           kpi_cards = [\<lparr>card_nome = Txt ''A'', card_total = 1, card_harvested = 0, card_rate = 0,
                         card_color_hex = ''#B71C1C''\<rparr>]\<rparr>)"
  by code_simp

end
